theory Spec2Isabelle
  imports Complex_Main
begin

section \<open>The order, payment and refund routes of the FollowersCart backend\<close>

text \<open>
  The routes of \<^verbatim>\<open>routes/auth.js\<close> that move an Order through its statuses are
  embedded as functions from a ledger (the three Mongoose collections) and a request to a
  response and the ledger afterwards. The Mongoose calls the routes make
  (\<^verbatim>\<open>findById\<close>, \<^verbatim>\<open>create\<close>, \<^verbatim>\<open>findByIdAndUpdate\<close>, \<^verbatim>\<open>save\<close>) are embedded with the
  checks the three schema files declare. A rejected promise is a value \<open>Inl e\<close>; the
  \<^verbatim>\<open>catch\<close> block of each route is the branch that receives it.

  Two things are left out. The e-mails: \<^verbatim>\<open>sendEmail\<close> returns a result object on each of
  its paths and the routes only log it. The \<^verbatim>\<open>createdAt\<close>/\<^verbatim>\<open>updatedAt\<close> timestamps,
  which no route reads.
\<close>

subsection \<open>Strings and identifiers\<close>

definition isHex :: "char \<Rightarrow> bool" where
  "isHex c = (c \<in> set ''0123456789abcdefABCDEF'')"

text \<open>
  \<^verbatim>\<open>mongoose.Types.ObjectId.isValid\<close> on a string: the 24 hexadecimal digits of an id.
  (Older drivers also take any string of twelve characters; the routes answer such an id
  as they answer an id that matches no document.)
\<close>

definition ObjectId_isValid :: "string \<Rightarrow> bool" where
  "ObjectId_isValid s = (length s = 24 \<and> list_all isHex s)"

text \<open>
  A string is the sequence of its characters, each a code unit below 256 (Latin-1);
  characters beyond that range are outside the model. The white space and line
  terminators of ECMAScript in that range are the tab, the line feed, the vertical tab,
  the form feed, the carriage return, the space and the no-break space.
\<close>

definition isSpace :: "char \<Rightarrow> bool" where
  "isSpace c =
     (c \<in> set [CHR '' '', CHR 0x09, CHR 0x0A, CHR 0x0B, CHR 0x0C, CHR 0x0D, CHR 0xA0])"

text \<open>The schema option \<^verbatim>\<open>trim: true\<close> (\<^verbatim>\<open>String.prototype.trim\<close>).\<close>

definition trim :: "string \<Rightarrow> string" where
  "trim s = rev (dropWhile isSpace (rev (dropWhile isSpace s)))"

definition latin1Upper :: "char list" where
  "latin1Upper =
     [CHR 0xC0, CHR 0xC1, CHR 0xC2, CHR 0xC3, CHR 0xC4, CHR 0xC5, CHR 0xC6, CHR 0xC7,
      CHR 0xC8, CHR 0xC9, CHR 0xCA, CHR 0xCB, CHR 0xCC, CHR 0xCD, CHR 0xCE, CHR 0xCF,
      CHR 0xD0, CHR 0xD1, CHR 0xD2, CHR 0xD3, CHR 0xD4, CHR 0xD5, CHR 0xD6,
      CHR 0xD8, CHR 0xD9, CHR 0xDA, CHR 0xDB, CHR 0xDC, CHR 0xDD, CHR 0xDE]"

definition latin1Lower :: "char list" where
  "latin1Lower =
     [CHR 0xE0, CHR 0xE1, CHR 0xE2, CHR 0xE3, CHR 0xE4, CHR 0xE5, CHR 0xE6, CHR 0xE7,
      CHR 0xE8, CHR 0xE9, CHR 0xEA, CHR 0xEB, CHR 0xEC, CHR 0xED, CHR 0xEE, CHR 0xEF,
      CHR 0xF0, CHR 0xF1, CHR 0xF2, CHR 0xF3, CHR 0xF4, CHR 0xF5, CHR 0xF6,
      CHR 0xF8, CHR 0xF9, CHR 0xFA, CHR 0xFB, CHR 0xFC, CHR 0xFD, CHR 0xFE]"

definition toLowerChar :: "char \<Rightarrow> char" where
  "toLowerChar c =
     (case map_of (zip (''ABCDEFGHIJKLMNOPQRSTUVWXYZ'' @ latin1Upper)
                       (''abcdefghijklmnopqrstuvwxyz'' @ latin1Lower)) c of
        Some d \<Rightarrow> d
      | None \<Rightarrow> c)"

text \<open>The schema option \<^verbatim>\<open>lowercase: true\<close> (\<^verbatim>\<open>String.prototype.toLowerCase\<close>).\<close>

definition toLowerCase :: "string \<Rightarrow> string" where
  "toLowerCase s = map toLowerChar s"

text \<open>The character class \<^verbatim>\<open>\w\<close> of a JavaScript regular expression.\<close>

definition isWord :: "char \<Rightarrow> bool" where
  "isWord c =
     (c \<in> set ''abcdefghijklmnopqrstuvwxyzABCDEFGHIJKLMNOPQRSTUVWXYZ0123456789_'')"

fun splitOn :: "char \<Rightarrow> string \<Rightarrow> string list" where
  "splitOn d [] = [[]]"
| "splitOn d (c # cs) =
     (if c = d then [] # splitOn d cs
      else (case splitOn d cs of
              [] \<Rightarrow> [[c]]
            | w # ws \<Rightarrow> (c # w) # ws))"

subsection \<open>Errors and ids\<close>

text \<open>
  What a Mongoose call rejects with. \<open>DuplicateKey\<close> is the MongoDB server error whose
  \<^verbatim>\<open>code\<close> is 11000; \<open>TypeError\<close> is JavaScript's, for a property read on \<^verbatim>\<open>null\<close>.
\<close>

datatype mongo_error = ValidationError | CastError | DuplicateKey | TypeError

text \<open>
  An ObjectId value, as the documents hold it, apart from the strings of a request.
  Mongoose casts a string where a schema or a query expects an id: the hexadecimal digits
  are read as twelve bytes (so their case is lost), any other string is a CastError. That
  rejection is why the routes with an \<^verbatim>\<open>:id\<close> parameter test \<^verbatim>\<open>ObjectId.isValid\<close> first.
\<close>

datatype objectId = ObjectId string

definition castObjectId :: "string \<Rightarrow> mongo_error + objectId" where
  "castObjectId x = (if ObjectId_isValid x then Inr (ObjectId (toLowerCase x)) else Inl CastError)"

subsection \<open>The documents\<close>

text \<open>
  \<^verbatim>\<open>models/order.js\<close>. The schema declares no \<^verbatim>\<open>userId\<close> path. The status is a string:
  the routes store values the schema's enum does not list.
\<close>

record order =
  o_name :: string
  o_email :: string
  o_phoneNumber :: string
  o_postLink :: string
  o_profileLink :: string
  o_requiredFollowers :: rat
  o_platform :: string
  o_socialId :: string
  o_service :: string
  o_price :: rat
  o_status :: string

definition Order_status_enum :: "string list" where
  "Order_status_enum =
     [''Pending'', ''Payment Pending'', ''In Progress'', ''Completed'', ''Cancelled'',
      ''Refunded'', ''Failed'']"

text \<open>\<^verbatim>\<open>models/Payment.js\<close>.\<close>

record payment =
  p_orderId :: objectId
  p_clientName :: string
  p_clientEmail :: string
  p_amount :: rat
  p_paymentMethod :: string
  p_transactionId :: string
  p_screenshotUrl :: "string option"
  p_remarks :: string
  p_status :: string
  p_paymentDate :: nat

definition Payment_method_enum :: "string list" where
  "Payment_method_enum = [''easypaisa'', ''jazzcash'', ''bankTransfer'', ''paypal'', ''googlePay'']"

definition Payment_status_enum :: "string list" where
  "Payment_status_enum = [''Pending'', ''Approved'', ''Rejected'']"

text \<open>\<^verbatim>\<open>models/Refund.js\<close>.\<close>

record refund =
  r_userId :: objectId
  r_orderId :: objectId
  r_clientName :: string
  r_clientEmail :: string
  r_amount :: rat
  r_reason :: string
  r_status :: string
  r_adminRemarks :: string

definition Refund_status_enum :: "string list" where
  "Refund_status_enum = [''Pending'', ''Approved'', ''Rejected'']"

text \<open>
  The database. Orders and refunds are looked up by id only; the payments are a list of
  (id, document) pairs, newest first, because an insert scans them for the unique indexes.
\<close>

record ledger =
  orders :: "objectId \<rightharpoonup> order"
  payments :: "(objectId \<times> payment) list"
  refunds :: "objectId \<rightharpoonup> refund"

datatype payload =
    NoPayload
  | ErrorMessage mongo_error
  | PaymentDoc objectId payment
  | RefundDoc objectId refund

datatype response = Reply (http_status: nat) (msg: string) (payload: payload)

subsection \<open>The Mongoose calls on orders\<close>

text \<open>\<^verbatim>\<open>Order.findById\<close> on an id: the document, or \<^verbatim>\<open>null\<close>.\<close>

definition Order_findById :: "ledger \<Rightarrow> objectId \<Rightarrow> order option" where
  "Order_findById s i = orders s i"

text \<open>
  Reading \<^verbatim>\<open>order.userId\<close> on an Order document: the schema has no such path, so the
  property is \<^verbatim>\<open>undefined\<close>.
\<close>

definition Order_userId :: "order \<Rightarrow> objectId option" where
  "Order_userId order = None"

text \<open>
  \<^verbatim>\<open>Order.findByIdAndUpdate(i, { status: st })\<close> with no options: update validators are
  off, the status is written as it is. An id that matches no document changes nothing.
\<close>

definition Order_findByIdAndUpdate :: "ledger \<Rightarrow> objectId \<Rightarrow> string \<Rightarrow> ledger" where
  "Order_findByIdAndUpdate s i st =
     (case orders s i of
        None \<Rightarrow> s
      | Some order \<Rightarrow> s\<lparr>orders := (orders s)(i \<mapsto> order\<lparr>o_status := st\<rparr>)\<rparr>)"

text \<open>
  The \<^verbatim>\<open>match\<close> of the order's \<^verbatim>\<open>email\<close>,
  \<^verbatim>\<open>/^(\w+([.-]?\w+)*@\w+([.-]?\w+)*(\.\w{2,3})+)$/\<close>. The pattern \<^verbatim>\<open>\w+([.-]?\w+)*\<close> is a
  string of \<^verbatim>\<open>\w\<close>, \<open>.\<close> and \<open>-\<close> that begins and ends with \<^verbatim>\<open>\w\<close> and has no two
  separators side by side; \<^verbatim>\<open>(\.\w{2,3})+\<close> is one or more groups of a dot and two or three
  \<^verbatim>\<open>\w\<close>. The part after the \<open>@\<close> matches when some split of it gives the two.
\<close>

definition isSeparator :: "char \<Rightarrow> bool" where
  "isSeparator c = (c = CHR ''.'' \<or> c = CHR ''-'')"

definition isWordOrSeparator :: "char \<Rightarrow> bool" where
  "isWordOrSeparator c = (isWord c \<or> isSeparator c)"

fun noAdjacentSeparators :: "string \<Rightarrow> bool" where
  "noAdjacentSeparators (a # b # cs) = ((isWord a \<or> isWord b) \<and> noAdjacentSeparators (b # cs))"
| "noAdjacentSeparators cs = True"

definition wordRuns :: "string \<Rightarrow> bool" where
  "wordRuns s =
     (case s of
        [] \<Rightarrow> False
      | c # cs \<Rightarrow>
          isWord c \<and> isWord (last (c # cs)) \<and> list_all isWordOrSeparator (c # cs) \<and>
          noAdjacentSeparators (c # cs))"

definition isDotGroup :: "string \<Rightarrow> bool" where
  "isDotGroup w = (2 \<le> length w \<and> length w \<le> 3 \<and> list_all isWord w)"

definition dotGroups :: "string \<Rightarrow> bool" where
  "dotGroups s =
     (case splitOn (CHR ''.'') s of
        [] \<Rightarrow> False
      | w # ws \<Rightarrow> w = [] \<and> ws \<noteq> [] \<and> list_all isDotGroup ws)"

fun domainSplit :: "string \<Rightarrow> string \<Rightarrow> bool" where
  "domainSplit pre [] = (wordRuns pre \<and> dotGroups [])"
| "domainSplit pre (c # cs) =
     ((wordRuns pre \<and> dotGroups (c # cs)) \<or> domainSplit (pre @ [c]) cs)"

definition Order_email_match :: "string \<Rightarrow> bool" where
  "Order_email_match s =
     (case splitOn (CHR ''@'') s of
        [l, d] \<Rightarrow> wordRuns l \<and> domainSplit [] d
      | _ \<Rightarrow> False)"

definition Order_platform_enum :: "string list" where
  "Order_platform_enum = [''Instagram'', ''TikTok'', ''YouTube'', ''Facebook'', ''Twitter'', ''Other'']"

definition Order_service_enum :: "string list" where
  "Order_service_enum =
     [''Followers'', ''Likes'', ''Views'', ''Subscribers'', ''Comments'', ''Shares'',
      ''Watch Time'', ''Live Stream'', ''Page Likes'', ''Female Followers'',
      ''English Followers'', ''Reels Views'', ''Story Views'', ''Other'']"

text \<open>
  The validators of the Order schema on the paths other than the status: \<^verbatim>\<open>required\<close>
  (a string that is not empty), \<^verbatim>\<open>match\<close>, \<^verbatim>\<open>min\<close> and the two enums.
\<close>

definition Order_validPaths :: "order \<Rightarrow> bool" where
  "Order_validPaths order =
     (o_name order \<noteq> [] \<and> o_email order \<noteq> [] \<and> Order_email_match (o_email order) \<and>
      o_phoneNumber order \<noteq> [] \<and> o_profileLink order \<noteq> [] \<and>
      1 \<le> o_requiredFollowers order \<and> o_platform order \<in> set Order_platform_enum \<and>
      o_service order \<in> set Order_service_enum \<and> 0 \<le> o_price order)"

definition Order_validate :: "order \<Rightarrow> bool" where
  "Order_validate order = (Order_validPaths order \<and> o_status order \<in> set Order_status_enum)"

text \<open>
  \<^verbatim>\<open>order.save()\<close> after an assignment to \<^verbatim>\<open>order.status\<close>. Saving validates every
  path of the loaded document and rejects with a ValidationError when one fails. (A stored
  order can fail: the refund routes write the status without validation, and
  \<^verbatim>\<open>PATCH /updateOrder/:id\<close> hands the request body to \<^verbatim>\<open>findByIdAndUpdate\<close>, whose
  update validators do not run on operators such as \<^verbatim>\<open>$inc\<close>.)
\<close>

definition Order_save :: "ledger \<Rightarrow> objectId \<Rightarrow> order \<Rightarrow> mongo_error + ledger" where
  "Order_save s i order =
     (if Order_validate order
      then Inr (s\<lparr>orders := (orders s)(i \<mapsto> order)\<rparr>)
      else Inl ValidationError)"

subsection \<open>Refund intake: POST /refundRequests\<close>

text \<open>
  \<^verbatim>\<open>Refund.create\<close>: \<^verbatim>\<open>userId\<close>, \<^verbatim>\<open>orderId\<close>, \<^verbatim>\<open>clientName\<close>, \<^verbatim>\<open>clientEmail\<close>,
  \<^verbatim>\<open>amount\<close> and \<^verbatim>\<open>reason\<close> are required, the order id must cast to an ObjectId, the
  status is one of the enum. \<open>nid\<close> is the \<^verbatim>\<open>_id\<close> the driver generates for the new
  document.
\<close>

definition Refund_create ::
  "objectId \<Rightarrow> ledger \<Rightarrow> objectId option \<Rightarrow> string \<Rightarrow> string \<Rightarrow> string \<Rightarrow> rat \<Rightarrow> string \<Rightarrow> string
     \<Rightarrow> mongo_error + (refund \<times> ledger)" where
  "Refund_create nid s userId orderId clientEmail clientName amount reason status =
     (case (userId, castObjectId orderId) of
        (Some uid, Inr oid) \<Rightarrow>
          if clientName \<noteq> [] \<and> clientEmail \<noteq> [] \<and> reason \<noteq> [] \<and>
             status \<in> set Refund_status_enum
          then
            (let r = \<lparr>r_userId = uid, r_orderId = oid, r_clientName = clientName,
                      r_clientEmail = clientEmail, r_amount = amount, r_reason = reason,
                      r_status = status, r_adminRemarks = []\<rparr>
             in Inr (r, s\<lparr>refunds := (refunds s)(nid \<mapsto> r)\<rparr>))
          else Inl ValidationError
      | _ \<Rightarrow> Inl ValidationError)"

text \<open>
  The body of the request, each field a string or a number as the schema has it (an id
  arrives as a string); \<open>None\<close> is a field the body does not have (\<^verbatim>\<open>undefined\<close> after
  destructuring).
\<close>

record refund_body =
  rb_orderId :: "string option"
  rb_clientEmail :: "string option"
  rb_clientName :: "string option"
  rb_amount :: "rat option"
  rb_reason :: "string option"

text \<open>JavaScript's \<^verbatim>\<open>!x\<close> on an optional string and on an optional number.\<close>

definition falsyStr :: "string option \<Rightarrow> bool" where
  "falsyStr x = (case x of None \<Rightarrow> True | Some v \<Rightarrow> v = [])"

definition falsyNum :: "rat option \<Rightarrow> bool" where
  "falsyNum x = (case x of None \<Rightarrow> True | Some v \<Rightarrow> v = 0)"

definition refundRequests :: "objectId \<Rightarrow> ledger \<Rightarrow> refund_body \<Rightarrow> response \<times> ledger" where
  "refundRequests nid s b =
     (if falsyStr (rb_orderId b) \<or> falsyStr (rb_clientEmail b) \<or> falsyStr (rb_clientName b) \<or>
         falsyNum (rb_amount b) \<or> falsyStr (rb_reason b)
      then (Reply 400 ''All refund request fields are required.'' NoPayload, s)
      else
        (case (rb_orderId b, rb_clientEmail b, rb_clientName b, rb_amount b, rb_reason b) of
           (Some orderId, Some clientEmail, Some clientName, Some amount, Some reason) \<Rightarrow>
             (case castObjectId orderId of
                Inl e \<Rightarrow> (Reply 500 ''Server error during refund request'' (ErrorMessage e), s)
              | Inr oid \<Rightarrow>
                  (case Order_findById s oid of
                     None \<Rightarrow> (Reply 404 ''Order not found.'' NoPayload, s)
                   | Some order \<Rightarrow>
                       if o_status order = ''Refunded''
                       then (Reply 409 ''This order has already been refunded.'' NoPayload, s)
                       else
                         (case Refund_create nid s (Order_userId order) orderId clientEmail
                                 clientName amount reason ''Pending'' of
                            Inl e \<Rightarrow>
                              (Reply 500 ''Server error during refund request''
                                 (ErrorMessage e), s)
                          | Inr (newRefundRequest, s1) \<Rightarrow>
                              (Reply 201
                                 ''Refund request submitted successfully! We will review it shortly.''
                                 (RefundDoc nid newRefundRequest),
                               Order_findByIdAndUpdate s1 oid ''Refund Pending''))))
         | _ \<Rightarrow> (Reply 400 ''All refund request fields are required.'' NoPayload, s)))"

subsection \<open>Refund review: PATCH /updateRefund/:id\<close>

record refund_updates =
  ru_status :: "string option"
  ru_adminRemarks :: "string option"

text \<open>
  \<^verbatim>\<open>Refund.findByIdAndUpdate(id, { status, adminRemarks }, { new: true, runValidators: true })\<close>:
  the update validators check the status against the enum; an \<^verbatim>\<open>undefined\<close>
  \<^verbatim>\<open>adminRemarks\<close> is dropped from the update. The result is the updated document, or
  \<^verbatim>\<open>null\<close> when the id matches none.
\<close>

definition Refund_findByIdAndUpdate ::
  "ledger \<Rightarrow> objectId \<Rightarrow> string \<Rightarrow> string option \<Rightarrow> mongo_error + (refund option \<times> ledger)" where
  "Refund_findByIdAndUpdate s i status adminRemarks =
     (if status \<in> set Refund_status_enum then
        (case refunds s i of
           None \<Rightarrow> Inr (None, s)
         | Some r \<Rightarrow>
             (let r' = r\<lparr>r_status := status,
                         r_adminRemarks :=
                           (case adminRemarks of None \<Rightarrow> r_adminRemarks r | Some a \<Rightarrow> a)\<rparr>
              in Inr (Some r', s\<lparr>refunds := (refunds s)(i \<mapsto> r')\<rparr>)))
      else Inl ValidationError)"

text \<open>
  The route. \<^verbatim>\<open>populate("orderId")\<close> replaces the order id of the refund by the order
  document, or by \<^verbatim>\<open>null\<close> when the order is gone. On \<^verbatim>\<open>null\<close> the order update matches
  nothing and the e-mail template then reads \<^verbatim>\<open>refundRequest.orderId._id\<close>, a TypeError
  that the \<^verbatim>\<open>catch\<close> block answers, after the refund has been updated.
\<close>

definition updateRefund :: "ledger \<Rightarrow> string \<Rightarrow> refund_updates \<Rightarrow> response \<times> ledger" where
  "updateRefund s rid b =
     (if \<not> ObjectId_isValid rid
      then (Reply 400 ''Invalid refund ID format.'' NoPayload, s)
      else
        (case ru_status b of
           None \<Rightarrow>
             (Reply 400 ''Invalid status provided. Must be 'Approved' or 'Rejected'.''
                NoPayload, s)
         | Some status \<Rightarrow>
             if status \<notin> set [''Approved'', ''Rejected'']
             then (Reply 400 ''Invalid status provided. Must be 'Approved' or 'Rejected'.''
                     NoPayload, s)
             else
               (case castObjectId rid of
                  Inl e \<Rightarrow>
                    (Reply 500 ''Server error updating refund request'' (ErrorMessage e), s)
                | Inr i \<Rightarrow>
                    (case Refund_findByIdAndUpdate s i status (ru_adminRemarks b) of
                       Inl e \<Rightarrow>
                         (Reply 500 ''Server error updating refund request''
                            (ErrorMessage e), s)
                     | Inr (None, s1) \<Rightarrow>
                         (Reply 404 ''Refund request not found.'' NoPayload, s1)
                     | Inr (Some refundRequest, s1) \<Rightarrow>
                         (case Order_findById s1 (r_orderId refundRequest) of
                            None \<Rightarrow>
                              (Reply 500 ''Server error updating refund request''
                                 (ErrorMessage TypeError), s1)
                          | Some populated \<Rightarrow>
                              if status = ''Approved''
                              then (Reply 200 ''Refund request updated to Approved''
                                      (RefundDoc i refundRequest),
                                    Order_findByIdAndUpdate s1 (r_orderId refundRequest)
                                      ''Refunded'')
                              else (Reply 200 ''Refund request updated to Rejected''
                                      (RefundDoc i refundRequest),
                                    Order_findByIdAndUpdate s1 (r_orderId refundRequest)
                                      ''Refund Rejected''))))))"

subsection \<open>Payment intake: POST /createPayment\<close>

text \<open>
  The \<^verbatim>\<open>match\<close> of \<^verbatim>\<open>clientEmail\<close>, \<^verbatim>\<open>/^[\w-\.]+@([\w-]+\.)+[\w-]{2,4}$/\<close>: one \<open>@\<close>; before
  it one or more of \<^verbatim>\<open>\w\<close>, \<open>-\<close> and \<open>.\<close>; after it two or more labels of \<^verbatim>\<open>\w\<close> and \<open>-\<close>
  joined by dots, none empty, the last of two to four characters.
\<close>

definition isLabelChar :: "char \<Rightarrow> bool" where
  "isLabelChar c = (isWord c \<or> c = CHR ''-'')"

definition isLocalChar :: "char \<Rightarrow> bool" where
  "isLocalChar c = (isWord c \<or> c = CHR ''-'' \<or> c = CHR ''.'')"

definition isLabel :: "string \<Rightarrow> bool" where
  "isLabel w = (w \<noteq> [] \<and> list_all isLabelChar w)"

definition Payment_email_match :: "string \<Rightarrow> bool" where
  "Payment_email_match s =
     (case splitOn (CHR ''@'') s of
        [l, d] \<Rightarrow>
          l \<noteq> [] \<and> list_all isLocalChar l \<and>
          (let labels = splitOn (CHR ''.'') d
           in 2 \<le> length labels \<and> list_all isLabel labels \<and>
              2 \<le> length (last labels) \<and> length (last labels) \<le> 4)
      | _ \<Rightarrow> False)"

text \<open>
  The casting and validation \<^verbatim>\<open>Payment.create\<close> runs before it inserts: the setters
  (\<^verbatim>\<open>trim\<close>, \<^verbatim>\<open>lowercase\<close>, the default of \<^verbatim>\<open>remarks\<close>), then \<^verbatim>\<open>required\<close>, \<^verbatim>\<open>match\<close>,
  \<^verbatim>\<open>min\<close> and the two enums.
\<close>

definition Payment_validate ::
  "string \<Rightarrow> string \<Rightarrow> string \<Rightarrow> rat \<Rightarrow> string \<Rightarrow> string \<Rightarrow> string option \<Rightarrow> string option \<Rightarrow>
     string \<Rightarrow> nat \<Rightarrow> mongo_error + payment" where
  "Payment_validate orderId clientName clientEmail amount paymentMethod transactionId
       screenshotUrl remarks status paymentDate =
     (case castObjectId orderId of
        Inl e \<Rightarrow> Inl ValidationError
      | Inr oid \<Rightarrow>
          (let p = \<lparr>p_orderId = oid,
                    p_clientName = trim clientName,
                    p_clientEmail = toLowerCase (trim clientEmail),
                    p_amount = amount,
                    p_paymentMethod = trim paymentMethod,
                    p_transactionId = trim transactionId,
                    p_screenshotUrl = map_option trim screenshotUrl,
                    p_remarks = (case remarks of None \<Rightarrow> ''No remarks.'' | Some r \<Rightarrow> trim r),
                    p_status = status,
                    p_paymentDate = paymentDate\<rparr>
           in if p_clientName p \<noteq> [] \<and> p_clientEmail p \<noteq> [] \<and>
                 Payment_email_match (p_clientEmail p) \<and> 0 \<le> amount \<and>
                 p_paymentMethod p \<in> set Payment_method_enum \<and> p_transactionId p \<noteq> [] \<and>
                 status \<in> set Payment_status_enum
              then Inr p
              else Inl ValidationError))"

text \<open>
  The unique indexes of the collection: the one \<^verbatim>\<open>unique: true\<close> puts on
  \<^verbatim>\<open>transactionId\<close>, and the compound one on (\<^verbatim>\<open>transactionId\<close>, \<^verbatim>\<open>paymentMethod\<close>).
\<close>

definition storedTransactionId :: "string \<Rightarrow> objectId \<times> payment \<Rightarrow> bool" where
  "storedTransactionId tid e = (p_transactionId (snd e) = tid)"

definition storedPair :: "string \<Rightarrow> string \<Rightarrow> objectId \<times> payment \<Rightarrow> bool" where
  "storedPair tid pm e = (p_transactionId (snd e) = tid \<and> p_paymentMethod (snd e) = pm)"

definition Payment_duplicateKey :: "(objectId \<times> payment) list \<Rightarrow> payment \<Rightarrow> bool" where
  "Payment_duplicateKey ps p =
     (list_ex (storedTransactionId (p_transactionId p)) ps \<or>
      list_ex (storedPair (p_transactionId p) (p_paymentMethod p)) ps)"

definition Payment_create ::
  "objectId \<Rightarrow> ledger \<Rightarrow> string \<Rightarrow> string \<Rightarrow> string \<Rightarrow> rat \<Rightarrow> string \<Rightarrow> string \<Rightarrow> string option \<Rightarrow>
     string option \<Rightarrow> string \<Rightarrow> nat \<Rightarrow> mongo_error + (payment \<times> ledger)" where
  "Payment_create nid s orderId clientName clientEmail amount paymentMethod transactionId
       screenshotUrl remarks status paymentDate =
     (case Payment_validate orderId clientName clientEmail amount paymentMethod transactionId
             screenshotUrl remarks status paymentDate of
        Inl e \<Rightarrow> Inl e
      | Inr p \<Rightarrow>
          if Payment_duplicateKey (payments s) p then Inl DuplicateKey
          else Inr (p, s\<lparr>payments := (nid, p) # payments s\<rparr>))"

record payment_body =
  pb_orderId :: "string option"
  pb_clientName :: "string option"
  pb_clientEmail :: "string option"
  pb_amount :: "rat option"
  pb_paymentMethod :: "string option"
  pb_transactionId :: "string option"
  pb_screenshotUrl :: "string option"
  pb_remarks :: "string option"
  pb_status :: "string option"

text \<open>\<^verbatim>\<open>status || "Pending"\<close>.\<close>

definition statusOrPending :: "string option \<Rightarrow> string" where
  "statusOrPending x = (case x of None \<Rightarrow> ''Pending'' | Some v \<Rightarrow> if v = [] then ''Pending'' else v)"

text \<open>The \<^verbatim>\<open>catch\<close> block of the route: 409 for the error code 11000, 500 for the rest.\<close>

definition createPayment_catch :: "mongo_error \<Rightarrow> response" where
  "createPayment_catch e =
     (if e = DuplicateKey
      then Reply 409 ''A payment with this transaction ID already exists for this method.''
             (ErrorMessage e)
      else Reply 500 ''Server error during payment creation'' (ErrorMessage e))"

text \<open>\<open>now\<close> is the value of \<^verbatim>\<open>new Date()\<close>, \<open>nid\<close> the id of the new document.\<close>

definition createPayment :: "nat \<Rightarrow> objectId \<Rightarrow> ledger \<Rightarrow> payment_body \<Rightarrow> response \<times> ledger" where
  "createPayment now nid s b =
     (if falsyStr (pb_orderId b) \<or> falsyStr (pb_clientName b) \<or> falsyStr (pb_clientEmail b) \<or>
         pb_amount b = None \<or> falsyStr (pb_paymentMethod b) \<or> falsyStr (pb_transactionId b)
      then (Reply 400 ''Missing one or more required payment fields.'' NoPayload, s)
      else
        (case (pb_orderId b, pb_clientName b, pb_clientEmail b, pb_amount b,
               pb_paymentMethod b, pb_transactionId b) of
           (Some orderId, Some clientName, Some clientEmail, Some amount, Some paymentMethod,
            Some transactionId) \<Rightarrow>
             (case Payment_create nid s orderId clientName clientEmail amount paymentMethod
                     transactionId (pb_screenshotUrl b) (pb_remarks b)
                     (statusOrPending (pb_status b)) now of
                Inl e \<Rightarrow> (createPayment_catch e, s)
              | Inr (newPayment, s1) \<Rightarrow>
                  (case castObjectId orderId of
                     Inl e \<Rightarrow> (createPayment_catch e, s1)
                   | Inr oid \<Rightarrow>
                       (case Order_findById s1 oid of
                          None \<Rightarrow>
                            (Reply 201 ''Payment record created successfully''
                               (PaymentDoc nid newPayment), s1)
                        | Some orderToUpdate \<Rightarrow>
                            (case Order_save s1 oid
                                    (orderToUpdate\<lparr>o_status := ''Payment Pending''\<rparr>) of
                               Inl e \<Rightarrow> (createPayment_catch e, s1)
                             | Inr s2 \<Rightarrow>
                                 (Reply 201 ''Payment record created successfully''
                                    (PaymentDoc nid newPayment), s2)))))
         | _ \<Rightarrow> (Reply 400 ''Missing one or more required payment fields.'' NoPayload, s)))"

subsection \<open>Payment review: PATCH /updatePayment/:id\<close>

text \<open>
  The body is handed to \<^verbatim>\<open>Payment.findByIdAndUpdate\<close> as it is: a partial document that
  may name any path of the Payment schema (the route's comment expects
  \<^verbatim>\<open>{ status: "Approved" }\<close> or \<^verbatim>\<open>{ remarks: "..." }\<close>). Bodies written with the update
  operators of MongoDB (\<^verbatim>\<open>$set\<close>, \<^verbatim>\<open>$inc\<close>, ...) are outside the model.
\<close>

record payment_updates =
  pu_orderId :: "string option"
  pu_clientName :: "string option"
  pu_clientEmail :: "string option"
  pu_amount :: "rat option"
  pu_paymentMethod :: "string option"
  pu_transactionId :: "string option"
  pu_screenshotUrl :: "string option"
  pu_remarks :: "string option"
  pu_status :: "string option"
  pu_paymentDate :: "nat option"

fun replaceById :: "objectId \<Rightarrow> 'a \<Rightarrow> (objectId \<times> 'a) list \<Rightarrow> (objectId \<times> 'a) list" where
  "replaceById i d [] = []"
| "replaceById i d (e # es) = (if fst e = i then (i, d) # es else e # replaceById i d es)"

text \<open>A check on a path the update may or may not name.\<close>

definition whenSet :: "('a \<Rightarrow> bool) \<Rightarrow> 'a option \<Rightarrow> bool" where
  "whenSet P x = (case x of None \<Rightarrow> True | Some v \<Rightarrow> P v)"

definition castsToObjectId :: "string \<Rightarrow> bool" where
  "castsToObjectId x = (case castObjectId x of Inl e \<Rightarrow> False | Inr i \<Rightarrow> True)"

definition nonEmptyTrimmed :: "string \<Rightarrow> bool" where
  "nonEmptyTrimmed v = (trim v \<noteq> [])"

definition validClientEmail :: "string \<Rightarrow> bool" where
  "validClientEmail v =
     (toLowerCase (trim v) \<noteq> [] \<and> Payment_email_match (toLowerCase (trim v)))"

definition validAmount :: "rat \<Rightarrow> bool" where
  "validAmount v = (0 \<le> v)"

definition validPaymentMethod :: "string \<Rightarrow> bool" where
  "validPaymentMethod v = (trim v \<in> set Payment_method_enum)"

definition validPaymentStatus :: "string \<Rightarrow> bool" where
  "validPaymentStatus v = (v \<in> set Payment_status_enum)"

text \<open>
  The update validators that \<^verbatim>\<open>runValidators: true\<close> turns on: the validators of the
  schema, on the paths the update names, after the setters.
\<close>

definition Payment_updateValid :: "payment_updates \<Rightarrow> bool" where
  "Payment_updateValid u =
     (whenSet nonEmptyTrimmed (pu_clientName u) \<and> whenSet validClientEmail (pu_clientEmail u) \<and>
      whenSet validAmount (pu_amount u) \<and> whenSet validPaymentMethod (pu_paymentMethod u) \<and>
      whenSet nonEmptyTrimmed (pu_transactionId u) \<and> whenSet validPaymentStatus (pu_status u))"

definition Payment_applyUpdate :: "payment_updates \<Rightarrow> payment \<Rightarrow> payment" where
  "Payment_applyUpdate u p =
     \<lparr>p_orderId =
        (case pu_orderId u of
           None \<Rightarrow> p_orderId p
         | Some x \<Rightarrow> (case castObjectId x of Inl e \<Rightarrow> p_orderId p | Inr oid \<Rightarrow> oid)),
      p_clientName = (case pu_clientName u of None \<Rightarrow> p_clientName p | Some v \<Rightarrow> trim v),
      p_clientEmail =
        (case pu_clientEmail u of None \<Rightarrow> p_clientEmail p | Some v \<Rightarrow> toLowerCase (trim v)),
      p_amount = (case pu_amount u of None \<Rightarrow> p_amount p | Some v \<Rightarrow> v),
      p_paymentMethod =
        (case pu_paymentMethod u of None \<Rightarrow> p_paymentMethod p | Some v \<Rightarrow> trim v),
      p_transactionId =
        (case pu_transactionId u of None \<Rightarrow> p_transactionId p | Some v \<Rightarrow> trim v),
      p_screenshotUrl =
        (case pu_screenshotUrl u of None \<Rightarrow> p_screenshotUrl p | Some v \<Rightarrow> Some (trim v)),
      p_remarks = (case pu_remarks u of None \<Rightarrow> p_remarks p | Some v \<Rightarrow> trim v),
      p_status = (case pu_status u of None \<Rightarrow> p_status p | Some v \<Rightarrow> v),
      p_paymentDate = (case pu_paymentDate u of None \<Rightarrow> p_paymentDate p | Some v \<Rightarrow> v)\<rparr>"

text \<open>
  The unique indexes on an update. An index is consulted when the update moves the
  document's key in it: the transaction id for the first, the pair of transaction id and
  payment method for the second. The update is rejected when another document holds the
  new key.
\<close>

definition storedElsewhere :: "objectId \<Rightarrow> string \<Rightarrow> objectId \<times> payment \<Rightarrow> bool" where
  "storedElsewhere i tid e = (fst e \<noteq> i \<and> p_transactionId (snd e) = tid)"

definition storedPairElsewhere ::
  "objectId \<Rightarrow> string \<Rightarrow> string \<Rightarrow> objectId \<times> payment \<Rightarrow> bool" where
  "storedPairElsewhere i tid pm e =
     (fst e \<noteq> i \<and> p_transactionId (snd e) = tid \<and> p_paymentMethod (snd e) = pm)"

definition sameKey :: "payment \<Rightarrow> payment \<Rightarrow> bool" where
  "sameKey p q =
     (p_transactionId p = p_transactionId q \<and> p_paymentMethod p = p_paymentMethod q)"

definition Payment_updateDuplicateKey ::
  "(objectId \<times> payment) list \<Rightarrow> objectId \<Rightarrow> payment \<Rightarrow> payment \<Rightarrow> bool" where
  "Payment_updateDuplicateKey ps i p p' =
     ((p_transactionId p' \<noteq> p_transactionId p \<and>
       list_ex (storedElsewhere i (p_transactionId p')) ps) \<or>
      (\<not> sameKey p' p \<and>
       list_ex (storedPairElsewhere i (p_transactionId p') (p_paymentMethod p')) ps))"

text \<open>
  \<^verbatim>\<open>Payment.findByIdAndUpdate(id, updates, { new: true, runValidators: true })\<close>: the update
  is cast and validated before the query runs; the result is the updated document, or
  \<^verbatim>\<open>null\<close> when the id matches none.
\<close>

definition Payment_findByIdAndUpdate ::
  "ledger \<Rightarrow> objectId \<Rightarrow> payment_updates \<Rightarrow> mongo_error + (payment option \<times> ledger)" where
  "Payment_findByIdAndUpdate s i updates =
     (if \<not> whenSet castsToObjectId (pu_orderId updates) then Inl CastError
      else if \<not> Payment_updateValid updates then Inl ValidationError
      else
        (case map_of (payments s) i of
           None \<Rightarrow> Inr (None, s)
         | Some p \<Rightarrow>
             (let p' = Payment_applyUpdate updates p
              in if Payment_updateDuplicateKey (payments s) i p p'
                 then Inl DuplicateKey
                 else Inr (Some p', s\<lparr>payments := replaceById i p' (payments s)\<rparr>))))"

text \<open>The test of the route before it moves the order of an approved payment.\<close>

definition notFinalNorInProgress :: "string \<Rightarrow> bool" where
  "notFinalNorInProgress st =
     (st \<noteq> ''Completed'' \<and> st \<noteq> ''Cancelled'' \<and> st \<noteq> ''Refunded'' \<and> st \<noteq> ''Failed'' \<and>
      st \<noteq> ''In Progress'')"

definition updatePayment :: "ledger \<Rightarrow> string \<Rightarrow> payment_updates \<Rightarrow> response \<times> ledger" where
  "updatePayment s pid updates =
     (if \<not> ObjectId_isValid pid
      then (Reply 400 ''Invalid payment ID format.'' NoPayload, s)
      else
        (case castObjectId pid of
           Inl e \<Rightarrow> (Reply 500 ''Server error updating payment'' (ErrorMessage e), s)
         | Inr i \<Rightarrow>
             (case Payment_findByIdAndUpdate s i updates of
                Inl e \<Rightarrow> (Reply 500 ''Server error updating payment'' (ErrorMessage e), s)
              | Inr (None, s1) \<Rightarrow> (Reply 404 ''Payment not found.'' NoPayload, s1)
              | Inr (Some updatedPayment, s1) \<Rightarrow>
                  if p_status updatedPayment = ''Approved'' then
                    (case Order_findById s1 (p_orderId updatedPayment) of
                       None \<Rightarrow>
                         (Reply 200 ''Payment updated successfully''
                            (PaymentDoc i updatedPayment), s1)
                     | Some orderToUpdate \<Rightarrow>
                         if notFinalNorInProgress (o_status orderToUpdate) then
                           (case Order_save s1 (p_orderId updatedPayment)
                                   (orderToUpdate\<lparr>o_status := ''In Progress''\<rparr>) of
                              Inl e \<Rightarrow>
                                (Reply 500 ''Server error updating payment'' (ErrorMessage e), s1)
                            | Inr s2 \<Rightarrow>
                                (Reply 200 ''Payment updated successfully''
                                   (PaymentDoc i updatedPayment), s2))
                         else
                           (Reply 200 ''Payment updated successfully''
                              (PaymentDoc i updatedPayment), s1))
                  else
                    (Reply 200 ''Payment updated successfully''
                       (PaymentDoc i updatedPayment), s1))))"

subsection \<open>Submissions the routes accept\<close>

text \<open>
  A refund submission that passes the first check of the route: each of the five fields
  is there and is not falsy.
\<close>

definition presentFields :: "refund_body \<Rightarrow> bool" where
  "presentFields b =
     (\<not> falsyStr (rb_orderId b) \<and> \<not> falsyStr (rb_clientEmail b) \<and>
      \<not> falsyStr (rb_clientName b) \<and> \<not> falsyNum (rb_amount b) \<and> \<not> falsyStr (rb_reason b))"

text \<open>
  A valid payment submission: it passes the field check of the route, and the schema
  accepts the document the route builds from it; \<open>p\<close> is that document after casting.
\<close>

definition validSubmission :: "nat \<Rightarrow> payment_body \<Rightarrow> payment \<Rightarrow> bool" where
  "validSubmission now b p =
     (case (pb_orderId b, pb_clientName b, pb_clientEmail b, pb_amount b, pb_paymentMethod b,
            pb_transactionId b) of
        (Some orderId, Some clientName, Some clientEmail, Some amount, Some paymentMethod,
         Some transactionId) \<Rightarrow>
          orderId \<noteq> [] \<and> clientName \<noteq> [] \<and> clientEmail \<noteq> [] \<and> paymentMethod \<noteq> [] \<and>
          transactionId \<noteq> [] \<and>
          Payment_validate orderId clientName clientEmail amount paymentMethod transactionId
            (pb_screenshotUrl b) (pb_remarks b) (statusOrPending (pb_status b)) now = Inr p
      | _ \<Rightarrow> False)"

subsection \<open>A ledger to run the routes on\<close>

text \<open>
  One order, at a status to choose, with one payment and one refund request that refer
  to it. The refund carries a user id: such a document is in the collection only if it
  was put there by other means than the intake route of this file.
\<close>

definition exampleOrderId :: objectId where
  "exampleOrderId = ObjectId ''64b7f0c2a1d3e4f5a6b7c8d9''"

definition exampleOrder :: "string \<Rightarrow> order" where
  "exampleOrder st =
     \<lparr>o_name = ''Ann'', o_email = ''ann@example.com'', o_phoneNumber = ''03001234567'',
      o_postLink = [], o_profileLink = ''https://instagram.com/ann'',
      o_requiredFollowers = 1000, o_platform = ''Instagram'', o_socialId = [],
      o_service = ''Followers'', o_price = 500, o_status = st\<rparr>"

definition examplePaymentId :: objectId where
  "examplePaymentId = ObjectId ''64b7f0c2a1d3e4f5a6b7c8e1''"

definition examplePayment :: "string \<Rightarrow> payment" where
  "examplePayment st =
     \<lparr>p_orderId = exampleOrderId, p_clientName = ''Ann'', p_clientEmail = ''ann@example.com'',
      p_amount = 500, p_paymentMethod = ''easypaisa'', p_transactionId = ''T1'',
      p_screenshotUrl = None, p_remarks = ''No remarks.'', p_status = st, p_paymentDate = 0\<rparr>"

definition exampleRefundId :: objectId where
  "exampleRefundId = ObjectId ''64b7f0c2a1d3e4f5a6b7c8f2''"

definition exampleRefund :: "string \<Rightarrow> refund" where
  "exampleRefund st =
     \<lparr>r_userId = ObjectId ''64b7f0c2a1d3e4f5a6b7c8a0'', r_orderId = exampleOrderId,
      r_clientName = ''Ann'', r_clientEmail = ''ann@example.com'', r_amount = 500,
      r_reason = ''late'', r_status = st, r_adminRemarks = []\<rparr>"

definition exampleLedger :: "string \<Rightarrow> ledger" where
  "exampleLedger st =
     \<lparr>orders = [exampleOrderId \<mapsto> exampleOrder st],
      payments = [(examplePaymentId, examplePayment ''Pending'')],
      refunds = [exampleRefundId \<mapsto> exampleRefund ''Pending'']\<rparr>"

definition exampleRefundBody :: refund_body where
  "exampleRefundBody =
     \<lparr>rb_orderId = Some ''64b7f0c2a1d3e4f5a6b7c8d9'', rb_clientEmail = Some ''ann@example.com'',
      rb_clientName = Some ''Ann'', rb_amount = Some 500, rb_reason = Some ''late''\<rparr>"

text \<open>
  A payment submission for the order, with transaction id \<open>tid\<close>, payment method \<open>pm\<close>
  and the status field \<open>st\<close>, and the document the schema makes of it.
\<close>

definition examplePaymentBody :: "string \<Rightarrow> string \<Rightarrow> string \<Rightarrow> string option \<Rightarrow> payment_body" where
  "examplePaymentBody orderId tid pm st =
     \<lparr>pb_orderId = Some orderId, pb_clientName = Some ''Ann'',
      pb_clientEmail = Some ''Ann@Example.com'', pb_amount = Some 500,
      pb_paymentMethod = Some pm, pb_transactionId = Some tid, pb_screenshotUrl = None,
      pb_remarks = None, pb_status = st\<rparr>"

definition exampleNewPayment :: "objectId \<Rightarrow> string \<Rightarrow> string \<Rightarrow> string \<Rightarrow> payment" where
  "exampleNewPayment oid tid pm st =
     \<lparr>p_orderId = oid, p_clientName = ''Ann'', p_clientEmail = ''ann@example.com'',
      p_amount = 500, p_paymentMethod = pm, p_transactionId = tid,
      p_screenshotUrl = None, p_remarks = ''No remarks.'', p_status = st, p_paymentDate = 7\<rparr>"

definition exampleNewId :: objectId where
  "exampleNewId = ObjectId ''64b7f0c2a1d3e4f5a6b7c8da''"

text \<open>
  The same ledger with the order's \<^verbatim>\<open>requiredFollowers\<close> at 0, below the schema's
  minimum of 1, as an \<^verbatim>\<open>$inc\<close> through \<^verbatim>\<open>PATCH /updateOrder/:id\<close> leaves it.
\<close>

definition exampleLedgerNoFollowers :: "string \<Rightarrow> ledger" where
  "exampleLedgerNoFollowers st =
     \<lparr>orders = [exampleOrderId \<mapsto> (exampleOrder st)\<lparr>o_requiredFollowers := 0\<rparr>],
      payments = [(examplePaymentId, examplePayment ''Pending'')],
      refunds = [exampleRefundId \<mapsto> exampleRefund ''Pending'']\<rparr>"

text \<open>The review that approves a payment.\<close>

definition exampleApproval :: payment_updates where
  "exampleApproval =
     \<lparr>pu_orderId = None, pu_clientName = None, pu_clientEmail = None, pu_amount = None,
      pu_paymentMethod = None, pu_transactionId = None, pu_screenshotUrl = None,
      pu_remarks = None, pu_status = Some ''Approved'', pu_paymentDate = None\<rparr>"

section \<open>Properties\<close>

subsection \<open>Auxiliary facts\<close>

lemma castObjectId_valid: "castObjectId x = Inr i \<Longrightarrow> ObjectId_isValid x"
  by (simp add: castObjectId_def split: if_splits)

lemma castObjectId_example:
  "castObjectId ''64b7f0c2a1d3e4f5a6b7c8d9'' = Inr exampleOrderId"
  "castObjectId ''64b7f0c2a1d3e4f5a6b7c8e1'' = Inr examplePaymentId"
  "castObjectId ''64b7f0c2a1d3e4f5a6b7c8f2'' = Inr exampleRefundId"
  "castObjectId ''64B7F0C2A1D3E4F5A6B7C8D9'' = Inr exampleOrderId"
  "castObjectId ''64b7f0c2a1d3e4f5a6b7c8ff'' = Inr (ObjectId ''64b7f0c2a1d3e4f5a6b7c8ff'')"
  "castObjectId ''abc'' = Inl CastError"
  by code_simp+

lemma exampleIds_distinct:
  "exampleOrderId \<noteq> ObjectId ''64b7f0c2a1d3e4f5a6b7c8ff''"
  by (simp add: exampleOrderId_def)

lemma exampleOrder_status [simp]: "(exampleOrder st)\<lparr>o_status := st'\<rparr> = exampleOrder st'"
  by (simp add: exampleOrder_def)

lemma o_status_exampleOrder [simp]: "o_status (exampleOrder st) = st"
  by (simp add: exampleOrder_def)

lemma exampleLedger_sel [simp]:
  "orders (exampleLedger st) = [exampleOrderId \<mapsto> exampleOrder st]"
  "payments (exampleLedger st) = [(examplePaymentId, examplePayment ''Pending'')]"
  "refunds (exampleLedger st) = [exampleRefundId \<mapsto> exampleRefund ''Pending'']"
  by (simp_all add: exampleLedger_def)

lemma Payment_validate_orderId:
  "Payment_validate oi cn ce am pm ti su re st pd = Inr p \<Longrightarrow> castObjectId oi = Inr (p_orderId p)"
  by (auto simp: Payment_validate_def Let_def split: sum.splits if_splits)

lemma Payment_validate_fields:
  "Payment_validate oi cn ce am pm ti su re st pd = Inr p \<Longrightarrow>
     p_status p = st \<and> p_transactionId p = trim ti \<and> p_paymentMethod p = trim pm"
  by (auto simp: Payment_validate_def Let_def split: sum.splits if_splits)

lemma storedPair_storedTransactionId:
  "list_ex (storedPair tid pm) ps \<Longrightarrow> list_ex (storedTransactionId tid) ps"
  by (auto simp: list_ex_iff storedPair_def storedTransactionId_def)

lemma Order_email_match_example: "Order_email_match ''ann@example.com''"
  by code_simp

lemma exampleOrder_validPaths: "Order_validPaths (exampleOrder st)"
  using Order_email_match_example
  by (simp add: Order_validPaths_def exampleOrder_def Order_platform_enum_def
      Order_service_enum_def)

lemma exampleOrder_noFollowers_invalid:
  "\<not> Order_validPaths ((exampleOrder st)\<lparr>o_requiredFollowers := 0\<rparr>)"
  by (simp add: Order_validPaths_def)

lemma Order_validPaths_status [simp]:
  "Order_validPaths (order\<lparr>o_status := st\<rparr>) = Order_validPaths order"
  by (simp add: Order_validPaths_def)

text \<open>
  A valid submission that violates no unique index: the payment is inserted, and what
  follows depends on the order alone. And a valid submission that violates one.
\<close>

lemma createPayment_fresh:
  assumes "validSubmission now b p" and "\<not> Payment_duplicateKey (payments s) p"
  shows "createPayment now nid s b =
           (case orders s (p_orderId p) of
              None \<Rightarrow>
                (Reply 201 ''Payment record created successfully'' (PaymentDoc nid p),
                 s\<lparr>payments := (nid, p) # payments s\<rparr>)
            | Some order \<Rightarrow>
                if Order_validPaths order
                then (Reply 201 ''Payment record created successfully'' (PaymentDoc nid p),
                      s\<lparr>payments := (nid, p) # payments s,
                        orders := (orders s)(p_orderId p \<mapsto> order\<lparr>o_status := ''Payment Pending''\<rparr>)\<rparr>)
                else (Reply 500 ''Server error during payment creation''
                        (ErrorMessage ValidationError),
                      s\<lparr>payments := (nid, p) # payments s\<rparr>))"
  using assms
  by (auto simp: validSubmission_def createPayment_def falsyStr_def Payment_create_def
      Order_findById_def Order_save_def Order_validate_def Order_status_enum_def
      createPayment_catch_def
      dest!: Payment_validate_orderId split: option.splits)

lemma createPayment_stored:
  assumes "validSubmission now b p" and "Payment_duplicateKey (payments s) p"
  shows "createPayment now nid s b =
           (Reply 409 ''A payment with this transaction ID already exists for this method.''
              (ErrorMessage DuplicateKey), s)"
  using assms
  by (auto simp: validSubmission_def createPayment_def falsyStr_def Payment_create_def
      createPayment_catch_def split: option.splits)

text \<open>The example submissions are valid.\<close>

lemma validSubmission_example:
  "validSubmission 7 (examplePaymentBody ''64b7f0c2a1d3e4f5a6b7c8d9'' ''T2'' ''paypal'' (Some ''Approved''))
     (exampleNewPayment exampleOrderId ''T2'' ''paypal'' ''Approved'')"
  "validSubmission 7 (examplePaymentBody ''64b7f0c2a1d3e4f5a6b7c8d9'' ''T2'' ''paypal'' None)
     (exampleNewPayment exampleOrderId ''T2'' ''paypal'' ''Pending'')"
  "validSubmission 7 (examplePaymentBody ''64b7f0c2a1d3e4f5a6b7c8d9'' '' T1'' ''easypaisa'' None)
     (exampleNewPayment exampleOrderId ''T1'' ''easypaisa'' ''Pending'')"
  "validSubmission 7 (examplePaymentBody ''64b7f0c2a1d3e4f5a6b7c8ff'' ''T2'' ''paypal'' None)
     (exampleNewPayment (ObjectId ''64b7f0c2a1d3e4f5a6b7c8ff'') ''T2'' ''paypal'' ''Pending'')"
  "validSubmission 7 (examplePaymentBody ''64b7f0c2a1d3e4f5a6b7c8d9'' ''T1'' ''paypal'' None)
     (exampleNewPayment exampleOrderId ''T1'' ''paypal'' ''Pending'')"
  by code_simp+

subsection \<open>Refund intake\<close>

text \<open>
  C10. A refund submission whose amount is the number 0 is answered with the
  missing-fields error (status 400) before any lookup or write: the ledger is the one
  the request found, whatever the order id and the other fields are.
\<close>

theorem refundRequests_zero_amount:
  "rb_amount b = Some 0 \<Longrightarrow>
     refundRequests nid s b =
       (Reply 400 ''All refund request fields are required.'' NoPayload, s)"
  by (simp add: refundRequests_def falsyNum_def)

theorem refundRequests_zero_amount_witness:
  "rb_amount \<lparr>rb_orderId = Some ''64b7f0c2a1d3e4f5a6b7c8d9'', rb_clientEmail = Some ''a@b.co'',
      rb_clientName = Some ''Ann'', rb_amount = Some 0, rb_reason = Some ''late''\<rparr> = Some 0 \<and>
   refundRequests (ObjectId ''64b7f0c2a1d3e4f5a6b7c8da'')
     \<lparr>orders = Map.empty, payments = [], refunds = Map.empty\<rparr>
     \<lparr>rb_orderId = Some ''64b7f0c2a1d3e4f5a6b7c8d9'', rb_clientEmail = Some ''a@b.co'',
      rb_clientName = Some ''Ann'', rb_amount = Some 0, rb_reason = Some ''late''\<rparr> =
   (Reply 400 ''All refund request fields are required.'' NoPayload,
    \<lparr>orders = Map.empty, payments = [], refunds = Map.empty\<rparr>)"
  using refundRequests_zero_amount
    [of "\<lparr>rb_orderId = Some ''64b7f0c2a1d3e4f5a6b7c8d9'', rb_clientEmail = Some ''a@b.co'',
          rb_clientName = Some ''Ann'', rb_amount = Some 0, rb_reason = Some ''late''\<rparr>"
        "ObjectId ''64b7f0c2a1d3e4f5a6b7c8da''"
        "\<lparr>orders = Map.empty, payments = [], refunds = Map.empty\<rparr>"]
  by simp

text \<open>
  The failures of a refund submission, in the order the route tests them. A submission
  that lacks one of orderId, clientEmail, clientName, amount, reason is answered 400. One
  that has all five, whose orderId casts to the id of no order, is answered 404. One that
  has all five, whose order has the status Refunded, is answered 409. In each of the
  three cases the ledger afterwards is the ledger before.
\<close>

lemma refundRequests_failures:
  "(rb_orderId b = None \<or> rb_clientEmail b = None \<or> rb_clientName b = None \<or>
    rb_amount b = None \<or> rb_reason b = None
      \<longrightarrow> refundRequests nid s b =
            (Reply 400 ''All refund request fields are required.'' NoPayload, s)) \<and>
   (presentFields b \<and> rb_orderId b = Some x \<and> castObjectId x = Inr oid \<and> orders s oid = None
      \<longrightarrow> refundRequests nid s b = (Reply 404 ''Order not found.'' NoPayload, s)) \<and>
   (presentFields b \<and> rb_orderId b = Some x \<and> castObjectId x = Inr oid \<and>
    orders s oid = Some order \<and> o_status order = ''Refunded''
      \<longrightarrow> refundRequests nid s b =
            (Reply 409 ''This order has already been refunded.'' NoPayload, s))"
  by (auto simp: refundRequests_def presentFields_def falsyStr_def falsyNum_def
      Order_findById_def split: option.splits)

text \<open>
  An order id that is no ObjectId: \<^verbatim>\<open>Order.findById\<close> rejects, the \<^verbatim>\<open>catch\<close> block answers.
\<close>

lemma refundRequests_malformed_orderId:
  "presentFields b \<Longrightarrow> rb_orderId b = Some x \<Longrightarrow> castObjectId x = Inl e \<Longrightarrow>
     refundRequests nid s b =
       (Reply 500 ''Server error during refund request'' (ErrorMessage e), s)"
  by (auto simp: refundRequests_def presentFields_def falsyStr_def falsyNum_def
      split: option.splits)

text \<open>
  C7. A refund submission with all five fields whose orderId is the string abc: the
  string is the id of no order, and the specification has the submission fail with
  NotFound. The route has no test of the id's format (the routes with an \<^verbatim>\<open>:id\<close>
  parameter have one): \<^verbatim>\<open>Order.findById\<close> rejects with a CastError and the \<^verbatim>\<open>catch\<close>
  block answers 500, a server error. The ledger is unchanged.
\<close>

theorem refundRequests_malformed_orderId_500:
  "castObjectId ''abc'' = Inl CastError \<and>
   refundRequests exampleNewId (exampleLedger ''Pending'')
       (exampleRefundBody\<lparr>rb_orderId := Some ''abc''\<rparr>) =
     (Reply 500 ''Server error during refund request'' (ErrorMessage CastError),
      exampleLedger ''Pending'')"
  by (simp add: castObjectId_example refundRequests_def exampleRefundBody_def falsyStr_def
      falsyNum_def)

text \<open>
  The route creates no refund and changes no order, whatever it is sent: the user id it
  passes to \<^verbatim>\<open>Refund.create\<close> is \<^verbatim>\<open>undefined\<close>, and the schema requires one.
\<close>

lemma refundRequests_never_writes: "snd (refundRequests nid s b) = s"
  by (auto simp: refundRequests_def Order_userId_def Refund_create_def
      split: option.splits sum.splits)

lemma refundRequests_never_created: "http_status (fst (refundRequests nid s b)) \<noteq> 201"
  by (auto simp: refundRequests_def Order_userId_def Refund_create_def
      split: option.splits sum.splits)

text \<open>
  C4. A refund submission with all its fields, for an order that exists with the status
  Pending: the specification has it succeed, with a Pending refund created and the order at
  Refund Pending. The route answers 500 (the ValidationError of \<^verbatim>\<open>Refund.create\<close>),
  creates no refund and leaves the order at Pending.
\<close>

theorem refundRequests_existing_order_fails:
  "orders (exampleLedger ''Pending'') exampleOrderId = Some (exampleOrder ''Pending'') \<and>
   castObjectId ''64b7f0c2a1d3e4f5a6b7c8d9'' = Inr exampleOrderId \<and>
   refundRequests exampleNewId (exampleLedger ''Pending'') exampleRefundBody =
     (Reply 500 ''Server error during refund request'' (ErrorMessage ValidationError),
      exampleLedger ''Pending'')"
  by (simp add: castObjectId_example refundRequests_def exampleRefundBody_def falsyStr_def
      falsyNum_def Order_findById_def Order_userId_def Refund_create_def)

subsection \<open>Refund review\<close>

text \<open>
  C5. A refund review of an existing refund whose order exists: with the new status
  Approved the order is stored with the status Refunded, with Rejected it is stored with
  the status Refund Rejected, whatever status the order had; its other fields and the
  other orders are as before.
\<close>

theorem updateRefund_review:
  assumes "castObjectId rid = Inr i"
    and "refunds s i = Some r"
    and "orders s (r_orderId r) = Some order"
  shows "(ru_status b = Some ''Approved''
            \<longrightarrow> orders (snd (updateRefund s rid b)) =
                  (orders s)(r_orderId r \<mapsto> order\<lparr>o_status := ''Refunded''\<rparr>)) \<and>
         (ru_status b = Some ''Rejected''
            \<longrightarrow> orders (snd (updateRefund s rid b)) =
                  (orders s)(r_orderId r \<mapsto> order\<lparr>o_status := ''Refund Rejected''\<rparr>))"
  using assms castObjectId_valid [OF assms(1)]
  by (simp add: updateRefund_def Refund_findByIdAndUpdate_def Refund_status_enum_def
      Order_findById_def Order_findByIdAndUpdate_def Let_def)

theorem updateRefund_review_witness:
  "orders (snd (updateRefund (exampleLedger ''Completed'') ''64b7f0c2a1d3e4f5a6b7c8f2''
                  \<lparr>ru_status = Some ''Approved'', ru_adminRemarks = None\<rparr>)) =
     [exampleOrderId \<mapsto> exampleOrder ''Refunded''] \<and>
   orders (snd (updateRefund (exampleLedger ''In Progress'') ''64b7f0c2a1d3e4f5a6b7c8f2''
                  \<lparr>ru_status = Some ''Rejected'', ru_adminRemarks = Some ''no''\<rparr>)) =
     [exampleOrderId \<mapsto> exampleOrder ''Refund Rejected'']"
proof -
  have r: "refunds (exampleLedger st) exampleRefundId = Some (exampleRefund ''Pending'')" for st
    by simp
  have o: "orders (exampleLedger st) (r_orderId (exampleRefund ''Pending'')) = Some (exampleOrder st)" for st
    by (simp add: exampleRefund_def)
  show ?thesis
    using updateRefund_review
        [OF castObjectId_example(3) r [of "''Completed''"] o [of "''Completed''"],
         of "\<lparr>ru_status = Some ''Approved'', ru_adminRemarks = None\<rparr>"]
      updateRefund_review
        [OF castObjectId_example(3) r [of "''In Progress''"] o [of "''In Progress''"],
         of "\<lparr>ru_status = Some ''Rejected'', ru_adminRemarks = Some ''no''\<rparr>"]
    by (simp add: exampleRefund_def)
qed

text \<open>
  C8. A refund review whose new status is neither Approved nor Rejected (or is absent)
  is answered 400 and changes nothing: the ledger afterwards, with its refunds and its
  orders, is the ledger before.
\<close>

theorem updateRefund_invalid_status:
  assumes "ru_status b \<noteq> Some ''Approved''" and "ru_status b \<noteq> Some ''Rejected''"
  shows "http_status (fst (updateRefund s rid b)) = 400 \<and> snd (updateRefund s rid b) = s"
  using assms by (cases "ru_status b") (simp_all add: updateRefund_def)

theorem updateRefund_invalid_status_witness:
  "http_status (fst (updateRefund (exampleLedger ''Pending'') ''64b7f0c2a1d3e4f5a6b7c8f2''
                       \<lparr>ru_status = Some ''Pending'', ru_adminRemarks = None\<rparr>)) = 400 \<and>
   snd (updateRefund (exampleLedger ''Pending'') ''64b7f0c2a1d3e4f5a6b7c8f2''
          \<lparr>ru_status = Some ''Pending'', ru_adminRemarks = None\<rparr>) = exampleLedger ''Pending''"
  using updateRefund_invalid_status
    [of "\<lparr>ru_status = Some ''Pending'', ru_adminRemarks = None\<rparr>" "exampleLedger ''Pending''"
        "''64b7f0c2a1d3e4f5a6b7c8f2''"]
  by simp

text \<open>
  C2. The specification has every stored order status within the enum that the Order
  schema declares.
  Here a ledger whose one order has the status Pending, of the enum, receives the review
  that rejects the refund request of that order: the order is stored with the status
  Refund Rejected, which the enum does not list.
\<close>

theorem updateRefund_status_outside_enum:
  "orders (exampleLedger ''Pending'') = [exampleOrderId \<mapsto> exampleOrder ''Pending''] \<and>
   o_status (exampleOrder ''Pending'') \<in> set Order_status_enum \<and>
   orders (snd (updateRefund (exampleLedger ''Pending'') ''64b7f0c2a1d3e4f5a6b7c8f2''
                  \<lparr>ru_status = Some ''Rejected'', ru_adminRemarks = None\<rparr>)) =
     [exampleOrderId \<mapsto> exampleOrder ''Refund Rejected''] \<and>
   o_status (exampleOrder ''Refund Rejected'') \<notin> set Order_status_enum"
  by (simp add: Order_status_enum_def updateRefund_def castObjectId_example
      castObjectId_valid [OF castObjectId_example(3)] Refund_findByIdAndUpdate_def
      Refund_status_enum_def Order_findById_def Order_findByIdAndUpdate_def Let_def
      exampleRefund_def)

subsection \<open>Payment intake\<close>

text \<open>
  C3, as the specification states it, fails on three submissions, each valid and with a
  pair of transaction id and payment method that the ledger does not hold. The first
  names the status Approved: the payment is stored with that status, not with Pending.
  The second has the transaction id T1 of the stored easypaisa payment, under paypal: the
  unique index on the transaction id alone rejects the insert, the answer is 409 and
  nothing is written. The third finds the order with \<^verbatim>\<open>requiredFollowers\<close> at 0:
  \<^verbatim>\<open>save()\<close> rejects the order, the answer is 500, the payment stays inserted and the
  order keeps the status Completed.
\<close>

theorem createPayment_status_counterexample:
  "createPayment 7 exampleNewId (exampleLedger ''Pending'')
       (examplePaymentBody ''64b7f0c2a1d3e4f5a6b7c8d9'' ''T2'' ''paypal'' (Some ''Approved'')) =
     (Reply 201 ''Payment record created successfully''
        (PaymentDoc exampleNewId (exampleNewPayment exampleOrderId ''T2'' ''paypal'' ''Approved'')),
      \<lparr>orders = [exampleOrderId \<mapsto> exampleOrder ''Payment Pending''],
       payments = [(exampleNewId, exampleNewPayment exampleOrderId ''T2'' ''paypal'' ''Approved''),
                   (examplePaymentId, examplePayment ''Pending'')],
       refunds = [exampleRefundId \<mapsto> exampleRefund ''Pending'']\<rparr>) \<and>
   p_status (exampleNewPayment exampleOrderId ''T2'' ''paypal'' ''Approved'') = ''Approved'' \<and>
   \<not> list_ex (storedPair ''T1'' ''paypal'') (payments (exampleLedger ''Pending'')) \<and>
   createPayment 7 exampleNewId (exampleLedger ''Pending'')
       (examplePaymentBody ''64b7f0c2a1d3e4f5a6b7c8d9'' ''T1'' ''paypal'' None) =
     (Reply 409 ''A payment with this transaction ID already exists for this method.''
        (ErrorMessage DuplicateKey), exampleLedger ''Pending'') \<and>
   createPayment 7 exampleNewId (exampleLedgerNoFollowers ''Completed'')
       (examplePaymentBody ''64b7f0c2a1d3e4f5a6b7c8d9'' ''T2'' ''paypal'' None) =
     (Reply 500 ''Server error during payment creation'' (ErrorMessage ValidationError),
      \<lparr>orders = [exampleOrderId \<mapsto> (exampleOrder ''Completed'')\<lparr>o_requiredFollowers := 0\<rparr>],
       payments = [(exampleNewId, exampleNewPayment exampleOrderId ''T2'' ''paypal'' ''Pending''),
                   (examplePaymentId, examplePayment ''Pending'')],
       refunds = [exampleRefundId \<mapsto> exampleRefund ''Pending'']\<rparr>)"
proof -
  have fresh: "\<not> Payment_duplicateKey (payments (exampleLedger ''Pending''))
            (exampleNewPayment exampleOrderId ''T2'' ''paypal'' st)" for st
    by (simp add: Payment_duplicateKey_def storedTransactionId_def storedPair_def
        examplePayment_def exampleNewPayment_def)
  have fresh': "\<not> Payment_duplicateKey (payments (exampleLedgerNoFollowers ''Completed''))
            (exampleNewPayment exampleOrderId ''T2'' ''paypal'' ''Pending'')"
    by (simp add: Payment_duplicateKey_def storedTransactionId_def storedPair_def
        examplePayment_def exampleNewPayment_def exampleLedgerNoFollowers_def)
  have stored: "Payment_duplicateKey (payments (exampleLedger ''Pending''))
            (exampleNewPayment exampleOrderId ''T1'' ''paypal'' ''Pending'')"
    by (simp add: Payment_duplicateKey_def storedTransactionId_def examplePayment_def
        exampleNewPayment_def)
  have first: "createPayment 7 exampleNewId (exampleLedger ''Pending'')
       (examplePaymentBody ''64b7f0c2a1d3e4f5a6b7c8d9'' ''T2'' ''paypal'' (Some ''Approved'')) =
     (Reply 201 ''Payment record created successfully''
        (PaymentDoc exampleNewId (exampleNewPayment exampleOrderId ''T2'' ''paypal'' ''Approved'')),
      \<lparr>orders = [exampleOrderId \<mapsto> exampleOrder ''Payment Pending''],
       payments = [(exampleNewId, exampleNewPayment exampleOrderId ''T2'' ''paypal'' ''Approved''),
                   (examplePaymentId, examplePayment ''Pending'')],
       refunds = [exampleRefundId \<mapsto> exampleRefund ''Pending'']\<rparr>)"
    using createPayment_fresh [OF validSubmission_example(1) fresh, of exampleNewId]
      exampleOrder_validPaths [of "''Pending''"]
    by (simp add: exampleNewPayment_def exampleLedger_def)
  have third: "createPayment 7 exampleNewId (exampleLedgerNoFollowers ''Completed'')
       (examplePaymentBody ''64b7f0c2a1d3e4f5a6b7c8d9'' ''T2'' ''paypal'' None) =
     (Reply 500 ''Server error during payment creation'' (ErrorMessage ValidationError),
      \<lparr>orders = [exampleOrderId \<mapsto> (exampleOrder ''Completed'')\<lparr>o_requiredFollowers := 0\<rparr>],
       payments = [(exampleNewId, exampleNewPayment exampleOrderId ''T2'' ''paypal'' ''Pending''),
                   (examplePaymentId, examplePayment ''Pending'')],
       refunds = [exampleRefundId \<mapsto> exampleRefund ''Pending'']\<rparr>)"
    using createPayment_fresh [OF validSubmission_example(2) fresh', of exampleNewId]
      exampleOrder_noFollowers_invalid [of "''Completed''"]
    by (simp add: exampleNewPayment_def exampleLedgerNoFollowers_def)
  show ?thesis
    using first third createPayment_stored [OF validSubmission_example(5) stored, of exampleNewId]
    by (simp add: exampleNewPayment_def storedPair_def examplePayment_def)
qed

text \<open>
  C3, amended. A valid payment submission whose transaction id is not stored yet (under
  any payment method) has its payment created, with the status the submission names, and
  Pending when it names none. When the order the payment refers to exists and its other
  fields pass the validators of the Order schema, the order is stored with the status
  Payment Pending whatever its status was, the other orders being as before, and the
  answer is 201 with the payment; when there is no such order, the orders are as before
  and the answer is the same.
\<close>

theorem createPayment_new_transaction:
  assumes "validSubmission now b p"
    and "\<not> list_ex (storedTransactionId (p_transactionId p)) (payments s)"
  shows "p_status p = statusOrPending (pb_status b) \<and>
         payments (snd (createPayment now nid s b)) = (nid, p) # payments s \<and>
         (case orders s (p_orderId p) of
            None \<Rightarrow>
              fst (createPayment now nid s b) =
                Reply 201 ''Payment record created successfully'' (PaymentDoc nid p) \<and>
              orders (snd (createPayment now nid s b)) = orders s
          | Some order \<Rightarrow>
              Order_validPaths order \<longrightarrow>
                fst (createPayment now nid s b) =
                  Reply 201 ''Payment record created successfully'' (PaymentDoc nid p) \<and>
                orders (snd (createPayment now nid s b)) =
                  (orders s)(p_orderId p \<mapsto> order\<lparr>o_status := ''Payment Pending''\<rparr>))"
proof -
  have "\<not> Payment_duplicateKey (payments s) p"
    using assms(2) storedPair_storedTransactionId
    by (auto simp: Payment_duplicateKey_def)
  note run = createPayment_fresh [OF assms(1) this, of nid]
  have "p_status p = statusOrPending (pb_status b)"
    using assms(1)
    by (auto simp: validSubmission_def split: option.splits dest: Payment_validate_fields)
  then show ?thesis
    using run by (simp split: option.splits)
qed

theorem createPayment_new_transaction_witness:
  "p_status (exampleNewPayment exampleOrderId ''T2'' ''paypal'' ''Pending'') = ''Pending'' \<and>
   payments (snd (createPayment 7 exampleNewId (exampleLedger ''Completed'')
                    (examplePaymentBody ''64b7f0c2a1d3e4f5a6b7c8d9'' ''T2'' ''paypal'' None))) =
     [(exampleNewId, exampleNewPayment exampleOrderId ''T2'' ''paypal'' ''Pending''),
      (examplePaymentId, examplePayment ''Pending'')] \<and>
   fst (createPayment 7 exampleNewId (exampleLedger ''Completed'')
          (examplePaymentBody ''64b7f0c2a1d3e4f5a6b7c8d9'' ''T2'' ''paypal'' None)) =
     Reply 201 ''Payment record created successfully''
       (PaymentDoc exampleNewId (exampleNewPayment exampleOrderId ''T2'' ''paypal'' ''Pending'')) \<and>
   orders (snd (createPayment 7 exampleNewId (exampleLedger ''Completed'')
                  (examplePaymentBody ''64b7f0c2a1d3e4f5a6b7c8d9'' ''T2'' ''paypal'' None))) =
     [exampleOrderId \<mapsto> exampleOrder ''Payment Pending'']"
proof -
  have "\<not> list_ex (storedTransactionId
                     (p_transactionId (exampleNewPayment exampleOrderId ''T2'' ''paypal'' ''Pending'')))
            (payments (exampleLedger ''Completed''))"
    by (simp add: storedTransactionId_def examplePayment_def exampleNewPayment_def)
  from createPayment_new_transaction [OF validSubmission_example(2) this, of exampleNewId]
    exampleOrder_validPaths [of "''Completed''"]
  show ?thesis
    by (simp add: exampleNewPayment_def examplePaymentBody_def statusOrPending_def)
qed

text \<open>
  C6. A payment submission whose transaction id and payment method (as the schema trims
  them) are those of a stored payment writes nothing: no payment is added and every order
  is as before. It is never answered 201; when it is a valid submission, so that it
  comes to the insert, the answer is 409, the duplicate-key conflict.
\<close>

theorem createPayment_duplicate:
  assumes "pb_transactionId b = Some tid"
    and "pb_paymentMethod b = Some pm"
    and "list_ex (storedPair (trim tid) (trim pm)) (payments s)"
  shows "snd (createPayment now nid s b) = s \<and>
         http_status (fst (createPayment now nid s b)) \<in> {400, 409, 500} \<and>
         (validSubmission now b p \<longrightarrow>
            fst (createPayment now nid s b) =
              Reply 409 ''A payment with this transaction ID already exists for this method.''
                (ErrorMessage DuplicateKey))"
proof -
  have dup: "Payment_duplicateKey (payments s) q" if "validSubmission now b q" for q
    using that assms
    by (auto simp: validSubmission_def Payment_duplicateKey_def split: option.splits
        dest!: Payment_validate_fields)
  have "snd (createPayment now nid s b) = s \<and>
        http_status (fst (createPayment now nid s b)) \<in> {400, 409, 500}"
  proof (cases "\<exists>q. validSubmission now b q")
    case True
    then obtain q where "validSubmission now b q" ..
    from createPayment_stored [OF this dup [OF this], of nid] show ?thesis by simp
  next
    case False
    then show ?thesis
      by (auto simp: validSubmission_def createPayment_def falsyStr_def Payment_create_def
          createPayment_catch_def split: option.splits sum.splits)
  qed
  moreover have "validSubmission now b p \<longrightarrow>
      fst (createPayment now nid s b) =
        Reply 409 ''A payment with this transaction ID already exists for this method.''
          (ErrorMessage DuplicateKey)"
    using createPayment_stored [of now b p s nid] dup [of p] by simp
  ultimately show ?thesis by simp
qed

theorem createPayment_duplicate_witness:
  "createPayment 7 exampleNewId (exampleLedger ''Pending'')
       (examplePaymentBody ''64b7f0c2a1d3e4f5a6b7c8d9'' '' T1'' ''easypaisa'' None) =
     (Reply 409 ''A payment with this transaction ID already exists for this method.''
        (ErrorMessage DuplicateKey), exampleLedger ''Pending'')"
proof -
  have "list_ex (storedPair (trim '' T1'') (trim ''easypaisa'')) (payments (exampleLedger ''Pending''))"
    by (simp add: storedPair_def examplePayment_def trim_def isSpace_def)
  from createPayment_duplicate [OF _ _ this, of _ 7 exampleNewId
      "exampleNewPayment exampleOrderId ''T1'' ''easypaisa'' ''Pending''"]
    validSubmission_example(3)
  show ?thesis
    by (simp add: examplePaymentBody_def prod_eq_iff)
qed

text \<open>
  C9. A valid payment submission that violates no unique index and whose order id is
  the id of no order: the payment is created and kept, the answer is 201 with the
  created payment, and nothing else of the ledger changes, so no order is modified.
\<close>

theorem createPayment_missing_order:
  assumes "validSubmission now b p"
    and "\<not> Payment_duplicateKey (payments s) p"
    and "orders s (p_orderId p) = None"
  shows "createPayment now nid s b =
           (Reply 201 ''Payment record created successfully'' (PaymentDoc nid p),
            s\<lparr>payments := (nid, p) # payments s\<rparr>)"
  using createPayment_fresh [OF assms(1,2), of nid] assms(3) by simp

theorem createPayment_missing_order_witness:
  "createPayment 7 exampleNewId (exampleLedger ''Pending'')
       (examplePaymentBody ''64b7f0c2a1d3e4f5a6b7c8ff'' ''T2'' ''paypal'' None) =
     (Reply 201 ''Payment record created successfully''
        (PaymentDoc exampleNewId
           (exampleNewPayment (ObjectId ''64b7f0c2a1d3e4f5a6b7c8ff'') ''T2'' ''paypal'' ''Pending'')),
      \<lparr>orders = [exampleOrderId \<mapsto> exampleOrder ''Pending''],
       payments =
         [(exampleNewId,
           exampleNewPayment (ObjectId ''64b7f0c2a1d3e4f5a6b7c8ff'') ''T2'' ''paypal'' ''Pending''),
          (examplePaymentId, examplePayment ''Pending'')],
       refunds = [exampleRefundId \<mapsto> exampleRefund ''Pending'']\<rparr>)"
proof -
  have fresh: "\<not> Payment_duplicateKey (payments (exampleLedger ''Pending''))
            (exampleNewPayment (ObjectId ''64b7f0c2a1d3e4f5a6b7c8ff'') ''T2'' ''paypal'' ''Pending'')"
    by (simp add: Payment_duplicateKey_def storedTransactionId_def storedPair_def
        examplePayment_def exampleNewPayment_def)
  have absent: "orders (exampleLedger ''Pending'')
      (p_orderId (exampleNewPayment (ObjectId ''64b7f0c2a1d3e4f5a6b7c8ff'') ''T2'' ''paypal'' ''Pending'')) = None"
    by (simp add: exampleNewPayment_def exampleOrderId_def)
  from createPayment_missing_order [OF validSubmission_example(4) fresh absent, of exampleNewId]
  show ?thesis
    by (simp add: exampleLedger_def)
qed

subsection \<open>Payment review\<close>

lemma Payment_findByIdAndUpdate_stored:
  assumes "Payment_findByIdAndUpdate s i updates = Inr (Some p', s1)"
    and "pu_status updates = Some st"
  shows "orders s1 = orders s \<and> p_status p' = st"
proof -
  from assms(1) obtain p where "p' = Payment_applyUpdate updates p"
    and "s1 = s\<lparr>payments := replaceById i p' (payments s)\<rparr>"
    by (auto simp: Payment_findByIdAndUpdate_def Let_def split: if_splits option.splits)
  with assms(2) show ?thesis
    by (simp add: Payment_applyUpdate_def)
qed

lemma Payment_findByIdAndUpdate_example:
  "Payment_findByIdAndUpdate
       \<lparr>orders = os, payments = [(examplePaymentId, examplePayment ''Pending'')], refunds = rs\<rparr>
       examplePaymentId exampleApproval =
     Inr (Some (examplePayment ''Approved''),
          \<lparr>orders = os, payments = [(examplePaymentId, examplePayment ''Approved'')], refunds = rs\<rparr>)"
  by (simp add: Payment_findByIdAndUpdate_def exampleApproval_def whenSet_def
      Payment_updateValid_def validPaymentStatus_def Payment_status_enum_def
      Payment_applyUpdate_def examplePayment_def sameKey_def Payment_updateDuplicateKey_def
      Let_def)

lemma examplePayment_sel [simp]:
  "p_orderId (examplePayment st) = exampleOrderId"
  "p_status (examplePayment st) = st"
  by (simp_all add: examplePayment_def)

text \<open>
  C1, as the specification states it, fails on an order that \<^verbatim>\<open>save()\<close> rejects. The
  order exists with the status Payment Pending, none of the five, and with
  \<^verbatim>\<open>requiredFollowers\<close> at 0. The review approves its payment: the payment is stored as
  Approved, \<^verbatim>\<open>save()\<close> rejects the order, the answer is 500 and the order keeps the
  status Payment Pending.
\<close>

theorem updatePayment_approved_counterexample:
  "o_status (exampleOrder ''Payment Pending'') \<notin>
     set [''Completed'', ''Cancelled'', ''Refunded'', ''Failed'', ''In Progress''] \<and>
   updatePayment (exampleLedgerNoFollowers ''Payment Pending'') ''64b7f0c2a1d3e4f5a6b7c8e1''
       exampleApproval =
     (Reply 500 ''Server error updating payment'' (ErrorMessage ValidationError),
      \<lparr>orders = [exampleOrderId \<mapsto> (exampleOrder ''Payment Pending'')\<lparr>o_requiredFollowers := 0\<rparr>],
       payments = [(examplePaymentId, examplePayment ''Approved'')],
       refunds = [exampleRefundId \<mapsto> exampleRefund ''Pending'']\<rparr>)"
  using castObjectId_valid [OF castObjectId_example(2)]
    exampleOrder_noFollowers_invalid [of "''Payment Pending''"]
  by (simp add: updatePayment_def castObjectId_example exampleLedgerNoFollowers_def
      Payment_findByIdAndUpdate_example Order_findById_def notFinalNorInProgress_def
      Order_save_def Order_validate_def)

text \<open>
  C1, amended. A payment review that is stored and sets the status of the payment to
  Approved, the order of the payment existing: when the status of the order is none of
  Completed, Cancelled, Refunded, Failed, In Progress and the other fields of the order
  pass the validators of the Order schema, the order is stored with the status In
  Progress, the other orders being as before; when the status is one of the five, the
  orders are as before.
\<close>

theorem updatePayment_approved:
  assumes "castObjectId pid = Inr i"
    and "Payment_findByIdAndUpdate s i updates = Inr (Some p', s1)"
    and "pu_status updates = Some ''Approved''"
    and "orders s (p_orderId p') = Some order"
  shows "(o_status order \<notin> set [''Completed'', ''Cancelled'', ''Refunded'', ''Failed'', ''In Progress'']
          \<and> Order_validPaths order
            \<longrightarrow> orders (snd (updatePayment s pid updates)) =
                  (orders s)(p_orderId p' \<mapsto> order\<lparr>o_status := ''In Progress''\<rparr>)) \<and>
         (o_status order \<in> set [''Completed'', ''Cancelled'', ''Refunded'', ''Failed'', ''In Progress'']
            \<longrightarrow> orders (snd (updatePayment s pid updates)) = orders s)"
  using assms castObjectId_valid [OF assms(1)] Payment_findByIdAndUpdate_stored [OF assms(2,3)]
  by (simp add: updatePayment_def Order_findById_def Order_save_def Order_validate_def
      Order_status_enum_def notFinalNorInProgress_def)

theorem updatePayment_approved_witness:
  "orders (snd (updatePayment (exampleLedger ''Payment Pending'') ''64b7f0c2a1d3e4f5a6b7c8e1''
                  exampleApproval)) =
     [exampleOrderId \<mapsto> exampleOrder ''In Progress''] \<and>
   orders (snd (updatePayment (exampleLedger ''Completed'') ''64b7f0c2a1d3e4f5a6b7c8e1''
                  exampleApproval)) =
     [exampleOrderId \<mapsto> exampleOrder ''Completed'']"
proof -
  have p: "Payment_findByIdAndUpdate (exampleLedger st) examplePaymentId exampleApproval =
      Inr (Some (examplePayment ''Approved''),
           \<lparr>orders = [exampleOrderId \<mapsto> exampleOrder st],
            payments = [(examplePaymentId, examplePayment ''Approved'')],
            refunds = [exampleRefundId \<mapsto> exampleRefund ''Pending'']\<rparr>)" for st
    by (simp add: exampleLedger_def Payment_findByIdAndUpdate_example)
  have u: "pu_status exampleApproval = Some ''Approved''"
    by (simp add: exampleApproval_def)
  have o: "orders (exampleLedger st) (p_orderId (examplePayment ''Approved'')) = Some (exampleOrder st)"
    for st by (simp add: examplePayment_def)
  show ?thesis
    using updatePayment_approved
        [OF castObjectId_example(2) p [of "''Payment Pending''"] u o [of "''Payment Pending''"]]
      updatePayment_approved
        [OF castObjectId_example(2) p [of "''Completed''"] u o [of "''Completed''"]]
      exampleOrder_validPaths [of "''Payment Pending''"]
    by (simp add: examplePayment_def)
qed

end
